theory Spec2Isabelle
  imports Complex_Main "HOL-Library.AList" "HOL-Library.Sublist"
begin

section \<open>The Chat wrapper of chatgpt.py\<close>

text \<open>
  The class \<open>Chat\<close> of \<^verbatim>\<open>src/chatgptmanager/chatgpt.py\<close> is embedded as a record of its
  attributes and one function per method. A method takes the object (and, where it
  touches the disk, the files) and returns its result together with the object as the
  method leaves it: an exception is a value \<open>Inl e\<close>, and the object returned with it
  carries every assignment made before the \<^verbatim>\<open>raise\<close>.

  Python's floats are modelled as reals (rounding is not modelled), Python's \<^verbatim>\<open>str\<close>
  as \<open>string\<close>, a \<^verbatim>\<open>dict\<close> as a map. The provider (the \<^verbatim>\<open>openai\<close> package) and the
  clock are not code of the repository: they are parameters, record \<open>env\<close>.
\<close>

subsection \<open>Data\<close>

datatype error =
    KeyError string
  | IndexError
  | AssertionError
  | FileNotFoundError
  | UnpicklingError
  | ProviderError string

text \<open>One entry of \<^verbatim>\<open>chat_history\<close>: the dict \<^verbatim>\<open>{'role': ..., 'content': ...}\<close>.\<close>

record speech =
  role :: string
  content :: string

type_synonym cache_dict = "(string \<times> string) \<rightharpoonup> string"

text \<open>What \<^verbatim>\<open>pickle.load\<close> can give back: a dict of the shape \<^verbatim>\<open>save\<close> writes, or an
  object that is no dict.\<close>

datatype pyobj =
    PDict cache_dict
  | PList "string list"
  | PStr string
  | PInt int
  | PNone

fun is_dict :: "pyobj \<Rightarrow> bool" where
  "is_dict (PDict d) = True"
| "is_dict obj = False"

text \<open>A file holds a pickled object, or bytes that \<^verbatim>\<open>pickle.load\<close> rejects. A path is a
  directory and a file name; the files are listed in the order \<^verbatim>\<open>glob\<close> yields them.\<close>

datatype file_content = Pickle pyobj | Corrupt

type_synonym path = "string \<times> string"

type_synonym files = "(path \<times> file_content) list"

text \<open>The parts of the provider's answers that the code reads:
  \<^verbatim>\<open>completion["choices"][0]["message"]["content"]\<close>, \<^verbatim>\<open>completion["usage"]\<close>,
  \<^verbatim>\<open>res["usage"]["total_tokens"]\<close> and the vectors of \<^verbatim>\<open>res["data"]\<close>.\<close>

record completion =
  message_content :: string
  prompt_tokens :: int
  completion_tokens :: int

record embedding_response =
  total_tokens :: int
  data :: "real list list"

record env =
  chat_completion :: "string \<Rightarrow> speech list \<Rightarrow> real \<Rightarrow> error + completion"
  embedding_create :: "string list \<Rightarrow> string \<Rightarrow> error + embedding_response"
  now :: string

record chat =
  api_key :: string
  model_name :: string
  embedding_model_name :: string
  pricing_data :: "string \<rightharpoonup> (string \<rightharpoonup> real)"
  fee :: real
  cache :: cache_dict
  savedir :: string
  chat_history :: "speech list"
  interactive :: bool
  auto_saveload :: bool

text \<open>The price table that \<^verbatim>\<open>__init__\<close> assigns to \<^verbatim>\<open>self.pricing_data\<close> (lines 32-44).\<close>

definition pricing_table :: "string \<rightharpoonup> (string \<rightharpoonup> real)" where
  "pricing_table =
     [''gpt-3.5-turbo'' \<mapsto> [''input'' \<mapsto> 15 / 10000000, ''output'' \<mapsto> 2 / 1000000],
      ''gpt-4'' \<mapsto> [''input'' \<mapsto> 3 / 100000, ''output'' \<mapsto> 6 / 100000],
      ''text-embedding-ada-002'' \<mapsto> [''input'' \<mapsto> 1 / 10000000]]"

subsection \<open>reset, save, load\<close>

definition reset :: "chat \<Rightarrow> chat" where
  "reset s = s\<lparr>chat_history := []\<rparr>"

text \<open>\<^verbatim>\<open>save\<close> writes the cache to \<^verbatim>\<open>savedir / "<stamp>.pkl"\<close>; opening with \<^verbatim>\<open>"wb"\<close>
  replaces a file of that name.\<close>

definition save :: "string \<Rightarrow> chat \<Rightarrow> files \<Rightarrow> files" where
  "save stamp s fs = AList.update (savedir s, stamp @ ''.pkl'') (Pickle (PDict (cache s))) fs"

text \<open>The \<^verbatim>\<open>else\<close> branch of \<^verbatim>\<open>load\<close> (lines 92-95): open, unpickle, assert, merge.\<close>

definition load_path :: "path \<Rightarrow> files \<Rightarrow> chat \<Rightarrow> (error + unit) \<times> chat" where
  "load_path p fs s =
     (case map_of fs p of
        None \<Rightarrow> (Inl FileNotFoundError, s)
      | Some Corrupt \<Rightarrow> (Inl UnpicklingError, s)
      | Some (Pickle obj) \<Rightarrow>
          (case obj of
             PDict d \<Rightarrow> (Inr (), s\<lparr>cache := cache s ++ d\<rparr>)
           | _ \<Rightarrow> (Inl AssertionError, s)))"

text \<open>The loop of lines 89-90: the first path whose load raises ends it.\<close>

fun load_paths :: "path list \<Rightarrow> files \<Rightarrow> chat \<Rightarrow> (error + unit) \<times> chat" where
  "load_paths [] fs s = (Inr (), s)"
| "load_paths (p # ps) fs s =
     (case load_path p fs s of
        (Inl e, s') \<Rightarrow> (Inl e, s')
      | (Inr u, s') \<Rightarrow> load_paths ps fs s')"

text \<open>\<^verbatim>\<open>savedir.glob('*.pkl')\<close>: the files of the directory whose name ends in \<^verbatim>\<open>.pkl\<close>.\<close>

definition is_pkl :: "string \<Rightarrow> bool" where
  "is_pkl name = (4 \<le> length name \<and> drop (length name - 4) name = ''.pkl'')"

definition glob_pkl :: "string \<Rightarrow> files \<Rightarrow> path list" where
  "glob_pkl d fs = filter (\<lambda>p. fst p = d \<and> is_pkl (snd p)) (map fst fs)"

fun load :: "path option \<Rightarrow> files \<Rightarrow> chat \<Rightarrow> (error + unit) \<times> chat" where
  "load None fs s = load_paths (glob_pkl (savedir s) fs) fs s"
| "load (Some p) fs s = load_path p fs s"

subsection \<open>__init__\<close>

definition init ::
  "string \<Rightarrow> string \<Rightarrow> string \<Rightarrow> bool \<Rightarrow> bool \<Rightarrow> files \<Rightarrow> (error + unit) \<times> chat" where
  "init key model emodel interact autosl fs =
     (let s = \<lparr>api_key = key, model_name = model, embedding_model_name = emodel,
                pricing_data = pricing_table, fee = 0, cache = Map.empty,
                savedir = ''chatgpt'', chat_history = [], interactive = interact,
                auto_saveload = autosl\<rparr>
      in if autosl then load None fs s else (Inr (), s))"

subsection \<open>to_str, calculate_price, estimate_price\<close>

fun join :: "string \<Rightarrow> string list \<Rightarrow> string" where
  "join sep [] = []"
| "join sep [x] = x"
| "join sep (x # y # ys) = x @ sep @ join sep (y # ys)"

definition to_str :: "chat \<Rightarrow> string" where
  "to_str s =
     join [CHR 0x0A, CHR 0x0A]
       (map (\<lambda>sp. ''> '' @ role sp @ '': '' @ [CHR 0x0A] @ content sp) (chat_history s))"

definition calculate_price :: "chat \<Rightarrow> real \<Rightarrow> real \<Rightarrow> error + real" where
  "calculate_price s input_tokens output_tokens =
     (case pricing_data s (model_name s) of
        None \<Rightarrow> Inl (KeyError (model_name s))
      | Some pricing \<Rightarrow>
          (case pricing ''input'' of
             None \<Rightarrow> Inl (KeyError ''input'')
           | Some rate_in \<Rightarrow>
               (case pricing ''output'' of
                  None \<Rightarrow> Inl (KeyError ''output'')
                | Some rate_out \<Rightarrow> Inr (rate_in * input_tokens + rate_out * output_tokens))))"

definition estimate_price :: "chat \<Rightarrow> string \<Rightarrow> error + real" where
  "estimate_price s message =
     calculate_price s (real (length message)) (real (length message) * (11 / 10) + 20)"

subsection \<open>__call__\<close>

definition user_speech :: "string \<Rightarrow> speech" where
  "user_speech message = \<lparr>role = ''user'', content = message\<rparr>"

definition assistant_speech :: "string \<Rightarrow> speech" where
  "assistant_speech res = \<lparr>role = ''assistant'', content = res\<rparr>"

text \<open>Lines 193-225: the provider is asked; \<open>saved\<close> is \<^verbatim>\<open>saved_param["interactive"]\<close>.\<close>

definition ask_provider ::
  "env \<Rightarrow> string \<Rightarrow> real \<Rightarrow> bool \<Rightarrow> bool \<Rightarrow> chat \<times> files \<Rightarrow>
     (error + string \<times> real) \<times> chat \<times> files" where
  "ask_provider e message temperature temporary_interactive saved w =
     (case w of (s, fs) \<Rightarrow>
        (case chat_completion e (model_name s) (chat_history s @ [user_speech message]) temperature of
           Inl err \<Rightarrow> (Inl err, s, fs)
         | Inr compl \<Rightarrow>
             (let res = message_content compl;
                  s1 = s\<lparr>chat_history :=
                          (chat_history s @ [user_speech message]) @ [assistant_speech res]\<rparr>;
                  s2 = (if length (chat_history s1) = 2 \<and> temperature = 0
                        then s1\<lparr>cache := (cache s1)((model_name s1, message) \<mapsto> res)\<rparr>
                        else s1)
              in case calculate_price s2 (real_of_int (prompt_tokens compl))
                        (real_of_int (completion_tokens compl)) of
                   Inl err \<Rightarrow> (Inl err, s2, fs)
                 | Inr price \<Rightarrow>
                     (let s3 = s2\<lparr>fee := fee s2 + price\<rparr>;
                          s4 = (if temporary_interactive then s3\<lparr>interactive := saved\<rparr> else s3)
                      in (Inr (res, price), s4,
                          if auto_saveload s4 then save (now e) s4 fs else fs)))))"

text \<open>Lines 174-191, then \<open>ask_provider\<close>.\<close>

definition call ::
  "env \<Rightarrow> string \<Rightarrow> real \<Rightarrow> bool \<Rightarrow> chat \<times> files \<Rightarrow>
     (error + string \<times> real) \<times> chat \<times> files" where
  "call e message temperature temporary_interactive w =
     (case w of (s, fs) \<Rightarrow>
        (let s1 = (if temporary_interactive then s\<lparr>interactive := True\<rparr> else s);
             s2 = (if \<not> interactive s1 then s1\<lparr>chat_history := []\<rparr> else s1)
         in case (if chat_history s2 = [] \<and> temperature = 0
                  then cache s2 (model_name s2, message) else None) of
              Some res \<Rightarrow>
                (Inr (res, 0),
                 s2\<lparr>chat_history :=
                      (chat_history s2 @ [user_speech message]) @ [assistant_speech res]\<rparr>,
                 fs)
            | None \<Rightarrow>
                ask_provider e message temperature temporary_interactive (interactive s) (s2, fs)))"

subsection \<open>summarize_and_clear_history\<close>

text \<open>The request of line 149, as the bytes of its UTF-8 encoding.\<close>

definition summary_request :: string where
  "summary_request =
     [CHR 0xE4, CHR 0xBB, CHR 0x8A, CHR 0xE3, CHR 0x81, CHR 0xBE,
      CHR 0xE3, CHR 0x81, CHR 0xA7, CHR 0xE3, CHR 0x81, CHR 0xAE,
      CHR 0xE4, CHR 0xBC, CHR 0x9A, CHR 0xE8, CHR 0xA9, CHR 0xB1,
      CHR 0xE3, CHR 0x82, CHR 0x92, CHR 0xE8, CHR 0xA6, CHR 0x81,
      CHR 0xE7, CHR 0xB4, CHR 0x84, CHR 0xE3, CHR 0x81, CHR 0x97,
      CHR 0xE3, CHR 0x81, CHR 0xA6, CHR 0xE3, CHR 0x81, CHR 0x8F,
      CHR 0xE3, CHR 0x81, CHR 0xA0, CHR 0xE3, CHR 0x81, CHR 0x95,
      CHR 0xE3, CHR 0x81, CHR 0x84, CHR 0xE3, CHR 0x80, CHR 0x82]"

definition summarize_and_clear_history ::
  "env \<Rightarrow> chat \<times> files \<Rightarrow> (error + unit) \<times> chat \<times> files" where
  "summarize_and_clear_history e w =
     (case call e summary_request 0 False w of
        (Inl err, s, fs) \<Rightarrow> (Inl err, s, fs)
      | (Inr r, s, fs) \<Rightarrow>
          (Inr (), s\<lparr>chat_history := drop (length (chat_history s) - 2) (chat_history s)\<rparr>, fs))"

subsection \<open>embedding\<close>

datatype query = Str string | Iter "string list"

datatype vectors = Vec "real list" | Vecs "real list list"

definition unbreak :: "string \<Rightarrow> string" where
  "unbreak x = map (\<lambda>c. if c = CHR 0x0A then CHR '' '' else c) x"

definition embedding :: "env \<Rightarrow> query \<Rightarrow> chat \<Rightarrow> (error + vectors \<times> real) \<times> chat" where
  "embedding e q s =
     (let inputs = (case q of Iter items \<Rightarrow> map unbreak items | Str x \<Rightarrow> [unbreak x])
      in case embedding_create e inputs (embedding_model_name s) of
           Inl err \<Rightarrow> (Inl err, s)
         | Inr res \<Rightarrow>
             (case pricing_data s (embedding_model_name s) of
                None \<Rightarrow> (Inl (KeyError (embedding_model_name s)), s)
              | Some pricing \<Rightarrow>
                  (case pricing ''input'' of
                     None \<Rightarrow> (Inl (KeyError ''input''), s)
                   | Some rate \<Rightarrow>
                       (let price = real_of_int (total_tokens res) * rate;
                            s1 = s\<lparr>fee := fee s + price\<rparr>
                        in case q of
                             Iter items \<Rightarrow> (Inr (Vecs (data res), price), s1)
                           | Str x \<Rightarrow>
                               (case data res of
                                  [] \<Rightarrow> (Inl IndexError, s1)
                                | v # vs \<Rightarrow> (Inr (Vec v, price), s1))))))"

subsection \<open>The operations of a session\<close>

datatype operation =
    Reset
  | Save
  | Load "path option"
  | ToStr
  | CalculatePrice real real
  | EstimatePrice string
  | SummarizeAndClearHistory
  | Call string real bool
  | Embedding query

text \<open>The object and the files as an operation leaves them, whether it returns or raises.\<close>

fun step :: "env \<Rightarrow> operation \<Rightarrow> chat \<times> files \<Rightarrow> chat \<times> files" where
  "step e Reset (s, fs) = (reset s, fs)"
| "step e Save (s, fs) = (s, save (now e) s fs)"
| "step e (Load p) (s, fs) = (snd (load p fs s), fs)"
| "step e ToStr (s, fs) = (s, fs)"
| "step e (CalculatePrice i out) (s, fs) = (s, fs)"
| "step e (EstimatePrice m) (s, fs) = (s, fs)"
| "step e SummarizeAndClearHistory (s, fs) = snd (summarize_and_clear_history e (s, fs))"
| "step e (Call message temperature ti) (s, fs) = snd (call e message temperature ti (s, fs))"
| "step e (Embedding q) (s, fs) = (snd (embedding e q s), fs)"

text \<open>The sessions: an object that \<^verbatim>\<open>__init__\<close> built, then any operations.\<close>

inductive reachable :: "chat \<times> files \<Rightarrow> bool" where
  reachable_init:
    "init key model emodel interact autosl fs = (Inr (), s) \<Longrightarrow> reachable (s, fs)"
| reachable_step:
    "reachable w \<Longrightarrow> reachable (step e op w)"

subsection \<open>Notions of the statements\<close>

text \<open>The transcript as lines 175-181 leave it: untouched when the exchange is
  interactive (the attribute, or \<^verbatim>\<open>temporary_interactive\<close>), emptied when it is not.\<close>

definition kept_history :: "bool \<Rightarrow> chat \<Rightarrow> speech list" where
  "kept_history ti s = (if ti \<or> interactive s then chat_history s else [])"

text \<open>The test of lines 183-186: the cached answer, if the call is answered from the cache.\<close>

definition cache_hit :: "string \<Rightarrow> real \<Rightarrow> bool \<Rightarrow> chat \<Rightarrow> string option" where
  "cache_hit message temperature ti s =
     (if kept_history ti s = [] \<and> temperature = 0 then cache s (model_name s, message)
      else None)"

text \<open>One turn: the request and the response, as \<^verbatim>\<open>__call__\<close> appends them.\<close>

definition turn :: "string \<Rightarrow> string \<Rightarrow> speech list" where
  "turn message res = [user_speech message, assistant_speech res]"

text \<open>A transcript that alternates user and assistant entries, a user entry first.\<close>

fun alternates :: "speech list \<Rightarrow> bool" where
  "alternates [] = True"
| "alternates [u] = (role u = ''user'')"
| "alternates (u # a # rest) = (role u = ''user'' \<and> role a = ''assistant'' \<and> alternates rest)"

text \<open>A transcript made of whole turns: it alternates and ends with an answer.\<close>

definition whole_turns :: "speech list \<Rightarrow> bool" where
  "whole_turns h = (alternates h \<and> even (length h))"

text \<open>The provider reports token counts: none of them is negative.\<close>

definition usage_nonneg :: "env \<Rightarrow> bool" where
  "usage_nonneg e =
     ((\<forall>model messages temperature c.
         chat_completion e model messages temperature = Inr c \<longrightarrow>
           0 \<le> prompt_tokens c \<and> 0 \<le> completion_tokens c) \<and>
      (\<forall>inputs model r. embedding_create e inputs model = Inr r \<longrightarrow> 0 \<le> total_tokens r))"

text \<open>The dictionaries of a list of shards merged into a cache, first to last
  (\<^verbatim>\<open>self.cache |= obj\<close> for each).\<close>

definition merge_all :: "cache_dict list \<Rightarrow> cache_dict \<Rightarrow> cache_dict" where
  "merge_all ds c = fold (\<lambda>d acc. acc ++ d) ds c"

subsection \<open>Example sessions\<close>

text \<open>A provider that answers every request with \<open>pong\<close>, and one that is down.\<close>

definition example_env :: env where
  "example_env =
     \<lparr>chat_completion = (\<lambda>model messages temperature.
          Inr \<lparr>message_content = ''pong'', prompt_tokens = 3, completion_tokens = 1\<rparr>),
      embedding_create = (\<lambda>inputs model.
          Inr \<lparr>total_tokens = 2, data = map (\<lambda>x. [0]) inputs\<rparr>),
      now = ''20240101000000''\<rparr>"

definition down_env :: env where
  "down_env =
     \<lparr>chat_completion = (\<lambda>model messages temperature. Inl (ProviderError ''timeout'')),
      embedding_create = (\<lambda>inputs model. Inl (ProviderError ''timeout'')),
      now = ''20240101000000''\<rparr>"

text \<open>\<^verbatim>\<open>Chat("sk", "gpt-4", interactive=..., auto_saveload=False)\<close>, and the same object with
  one answer in its cache and with one turn in its transcript.\<close>

definition example_chat :: "bool \<Rightarrow> chat" where
  "example_chat interact =
     snd (init ''sk'' ''gpt-4'' ''text-embedding-ada-002'' interact False [])"

definition cached_chat :: "bool \<Rightarrow> chat" where
  "cached_chat interact =
     (example_chat interact)
       \<lparr>cache := [(''gpt-4'', ''ping'') \<mapsto> ''pong'', (''gpt-4'', ''bye'') \<mapsto> ''see you'']\<rparr>"

definition talked_chat :: "bool \<Rightarrow> chat" where
  "talked_chat interact =
     fst (step example_env (Call ''ping'' 0 False) (example_chat interact, []))"

text \<open>The same object when the embedding model is chosen as the chat model.\<close>

definition ada_chat :: chat where
  "ada_chat = snd (init ''sk'' ''text-embedding-ada-002'' ''text-embedding-ada-002'' True False [])"

text \<open>A save directory with two shards that both answer \<open>ping\<close>, and one with a pickled
  list among its files.\<close>

definition two_shards :: files where
  "two_shards =
     [((''chatgpt'', ''20240101000000.pkl''),
         Pickle (PDict [(''gpt-4'', ''ping'') \<mapsto> ''old'', (''gpt-4'', ''hello'') \<mapsto> ''world''])),
      ((''chatgpt'', ''notes.txt''), Corrupt),
      ((''chatgpt'', ''20240102000000.pkl''),
         Pickle (PDict [(''gpt-4'', ''ping'') \<mapsto> ''new'']))]"

definition bad_shard :: files where
  "bad_shard = [((''chatgpt'', ''list.pkl''), Pickle (PList [''ping'', ''pong'']))]"

section \<open>Facts about the methods\<close>

subsection \<open>The example sessions, evaluated\<close>

lemma example_chat_eq:
  "example_chat i =
     \<lparr>api_key = ''sk'', model_name = ''gpt-4'', embedding_model_name = ''text-embedding-ada-002'',
      pricing_data = pricing_table, fee = 0, cache = Map.empty, savedir = ''chatgpt'',
      chat_history = [], interactive = i, auto_saveload = False\<rparr>"
  by (simp add: example_chat_def init_def)

lemma cached_chat_eq:
  "cached_chat i =
     \<lparr>api_key = ''sk'', model_name = ''gpt-4'', embedding_model_name = ''text-embedding-ada-002'',
      pricing_data = pricing_table, fee = 0, cache = [(''gpt-4'', ''ping'') \<mapsto> ''pong'', (''gpt-4'', ''bye'') \<mapsto> ''see you''],
      savedir = ''chatgpt'', chat_history = [], interactive = i, auto_saveload = False\<rparr>"
  by (simp add: cached_chat_def example_chat_eq)

lemma ada_chat_eq:
  "ada_chat =
     \<lparr>api_key = ''sk'', model_name = ''text-embedding-ada-002'',
      embedding_model_name = ''text-embedding-ada-002'', pricing_data = pricing_table, fee = 0,
      cache = Map.empty, savedir = ''chatgpt'', chat_history = [], interactive = True,
      auto_saveload = False\<rparr>"
  by (simp add: ada_chat_def init_def)

lemma glob_two_shards:
  "glob_pkl ''chatgpt'' two_shards =
     [(''chatgpt'', ''20240101000000.pkl''), (''chatgpt'', ''20240102000000.pkl'')]"
  by (simp add: glob_pkl_def two_shards_def is_pkl_def)

subsection \<open>What __call__ returns and leaves behind\<close>

lemma calculate_price_frame:
  "pricing_data s' = pricing_data s \<Longrightarrow> model_name s' = model_name s \<Longrightarrow>
   calculate_price s' i out = calculate_price s i out"
  by (simp add: calculate_price_def cong: option.case_cong)

lemma calculate_price_upd [simp]:
  "calculate_price (s\<lparr>chat_history := h\<rparr>) i out = calculate_price s i out"
  "calculate_price (s\<lparr>cache := c\<rparr>) i out = calculate_price s i out"
  "calculate_price (s\<lparr>interactive := b\<rparr>) i out = calculate_price s i out"
  "calculate_price (s\<lparr>fee := f\<rparr>) i out = calculate_price s i out"
  by (rule calculate_price_frame; simp)+

lemma call_result:
  "fst (call e m t ti (s, fs)) =
     (case cache_hit m t ti s of
        Some res \<Rightarrow> Inr (res, 0)
      | None \<Rightarrow>
          (case chat_completion e (model_name s) (kept_history ti s @ [user_speech m]) t of
             Inl err \<Rightarrow> Inl err
           | Inr c \<Rightarrow>
               (case calculate_price s (real_of_int (prompt_tokens c))
                       (real_of_int (completion_tokens c)) of
                  Inl err \<Rightarrow> Inl err
                | Inr price \<Rightarrow> Inr (message_content c, price))))"
  by (simp add: call_def ask_provider_def cache_hit_def kept_history_def Let_def
        split: option.split sum.split)

lemma call_history:
  "chat_history (fst (snd (call e m t ti (s, fs)))) =
     (case cache_hit m t ti s of
        Some res \<Rightarrow> turn m res
      | None \<Rightarrow>
          (case chat_completion e (model_name s) (kept_history ti s @ [user_speech m]) t of
             Inl err \<Rightarrow> kept_history ti s
           | Inr c \<Rightarrow> kept_history ti s @ turn m (message_content c)))"
  by (simp add: call_def ask_provider_def cache_hit_def kept_history_def Let_def turn_def
        split: option.split sum.split)

lemma call_cache:
  "cache (fst (snd (call e m t ti (s, fs)))) =
     (case cache_hit m t ti s of
        Some res \<Rightarrow> cache s
      | None \<Rightarrow>
          (case chat_completion e (model_name s) (kept_history ti s @ [user_speech m]) t of
             Inl err \<Rightarrow> cache s
           | Inr c \<Rightarrow>
               if kept_history ti s = [] \<and> t = 0
               then (cache s)((model_name s, m) \<mapsto> message_content c) else cache s))"
  by (simp add: call_def ask_provider_def cache_hit_def kept_history_def Let_def
        split: option.split sum.split)

lemma call_fee:
  "fee (fst (snd (call e m t ti (s, fs)))) =
     (case fst (call e m t ti (s, fs)) of Inl err \<Rightarrow> fee s | Inr (res, price) \<Rightarrow> fee s + price)"
  by (simp add: call_def ask_provider_def Let_def
        split: option.split sum.split)

lemma call_interactive:
  "interactive (fst (snd (call e m t ti (s, fs)))) =
     (case cache_hit m t ti s of
        Some res \<Rightarrow> ti \<or> interactive s
      | None \<Rightarrow>
          (case fst (call e m t ti (s, fs)) of
             Inl err \<Rightarrow> ti \<or> interactive s
           | Inr r \<Rightarrow> interactive s))"
  by (simp add: call_def ask_provider_def cache_hit_def kept_history_def Let_def
        split: option.split sum.split)

lemma call_frame:
  "api_key (fst (snd (call e m t ti (s, fs)))) = api_key s \<and>
   model_name (fst (snd (call e m t ti (s, fs)))) = model_name s \<and>
   embedding_model_name (fst (snd (call e m t ti (s, fs)))) = embedding_model_name s \<and>
   pricing_data (fst (snd (call e m t ti (s, fs)))) = pricing_data s \<and>
   savedir (fst (snd (call e m t ti (s, fs)))) = savedir s \<and>
   auto_saveload (fst (snd (call e m t ti (s, fs)))) = auto_saveload s"
  by (simp add: call_def ask_provider_def Let_def split: option.split sum.split)

subsection \<open>What load leaves behind\<close>

lemma load_path_frame:
  "chat_history (snd (load_path p fs s)) = chat_history s \<and>
   fee (snd (load_path p fs s)) = fee s \<and>
   interactive (snd (load_path p fs s)) = interactive s \<and>
   pricing_data (snd (load_path p fs s)) = pricing_data s \<and>
   savedir (snd (load_path p fs s)) = savedir s"
  by (simp add: load_path_def split: option.split file_content.split pyobj.split)

lemma load_paths_frame:
  "chat_history (snd (load_paths ps fs s)) = chat_history s \<and>
   fee (snd (load_paths ps fs s)) = fee s \<and>
   interactive (snd (load_paths ps fs s)) = interactive s \<and>
   pricing_data (snd (load_paths ps fs s)) = pricing_data s \<and>
   savedir (snd (load_paths ps fs s)) = savedir s"
proof (induction ps arbitrary: s)
  case Nil
  show ?case by simp
next
  case (Cons p ps)
  obtain r s1 where l: "load_path p fs s = (r, s1)" by (cases "load_path p fs s")
  have f: "chat_history s1 = chat_history s \<and> fee s1 = fee s \<and>
           interactive s1 = interactive s \<and> pricing_data s1 = pricing_data s \<and>
           savedir s1 = savedir s"
    using load_path_frame [of p fs s] l by simp
  show ?case
  proof (cases r)
    case (Inl err)
    with l f show ?thesis by simp
  next
    case (Inr u)
    with l f Cons.IH [of s1] show ?thesis by simp
  qed
qed

lemma load_frame:
  "chat_history (snd (load p fs s)) = chat_history s \<and>
   fee (snd (load p fs s)) = fee s \<and>
   interactive (snd (load p fs s)) = interactive s \<and>
   pricing_data (snd (load p fs s)) = pricing_data s \<and>
   savedir (snd (load p fs s)) = savedir s"
  by (cases p) (simp_all add: load_paths_frame load_path_frame)

lemma load_paths_dicts:
  "map (map_of fs) ps = map (\<lambda>d. Some (Pickle (PDict d))) ds \<Longrightarrow>
   load_paths ps fs s = (Inr (), s\<lparr>cache := merge_all ds (cache s)\<rparr>)"
proof (induction ps arbitrary: ds s)
  case Nil
  then show ?case by (simp add: merge_all_def)
next
  case (Cons p ps)
  from Cons.prems obtain d ds' where ds: "ds = d # ds'"
    and p: "map_of fs p = Some (Pickle (PDict d))"
    and rest: "map (map_of fs) ps = map (\<lambda>d. Some (Pickle (PDict d))) ds'"
    by (cases ds) auto
  have "load_path p fs s = (Inr (), s\<lparr>cache := cache s ++ d\<rparr>)"
    using p by (simp add: load_path_def)
  then show ?case
    using Cons.IH [OF rest, of "s\<lparr>cache := cache s ++ d\<rparr>"] ds
    by (simp add: merge_all_def)
qed

lemma merge_all_absent:
  "\<forall>d\<in>set ds. d k = None \<Longrightarrow> merge_all ds c k = c k"
  by (induction ds arbitrary: c) (simp_all add: merge_all_def map_add_def)

lemma merge_all_last:
  "d k \<noteq> None \<Longrightarrow> \<forall>d'\<in>set post. d' k = None \<Longrightarrow> merge_all (pre @ d # post) c k = d k"
proof -
  assume d: "d k \<noteq> None" and post: "\<forall>d'\<in>set post. d' k = None"
  have "merge_all (pre @ d # post) c = merge_all post (merge_all pre c ++ d)"
    by (simp add: merge_all_def)
  then have "merge_all (pre @ d # post) c k = (merge_all pre c ++ d) k"
    using merge_all_absent [OF post] by simp
  with d show ?thesis by (auto simp add: map_add_def split: option.split)
qed

section \<open>The claims\<close>

text \<open>
  C1. A call with an empty transcript, temperature 0 and the key (model name, message) in
  the cache returns the cached text with price 0, and leaves the accumulated fee as it
  was. The provider is not asked: the statement holds for every environment.
\<close>

theorem call_cache_hit:
  assumes "chat_history s = []" and "temperature = 0"
    and "cache s (model_name s, message) = Some res"
  shows "fst (call e message temperature ti (s, fs)) = Inr (res, 0) \<and>
         fee (fst (snd (call e message temperature ti (s, fs)))) = fee s"
  using assms by (simp add: call_result call_fee cache_hit_def kept_history_def)

theorem call_cache_hit_witness:
  "chat_history (cached_chat True) = [] \<and>
   cache (cached_chat True) (model_name (cached_chat True), ''ping'') = Some ''pong'' \<and>
   fst (call down_env ''ping'' 0 False (cached_chat True, [])) = Inr (''pong'', 0) \<and>
   fee (fst (snd (call down_env ''ping'' 0 False (cached_chat True, [])))) = fee (cached_chat True)"
  using call_cache_hit [of "cached_chat True" 0 "''ping''" "''pong''" down_env False "[]"]
  by (simp add: cached_chat_eq)

text \<open>
  C6. \<^verbatim>\<open>load()\<close> with no path, when every \<^verbatim>\<open>*.pkl\<close> file of the save directory
  holds a pickled dict (\<open>ds\<close>, in the order of the glob), returns normally and leaves the
  object with its cache merged with each of them in turn; a key of some shard has the
  value of the last shard that holds it, and a key of no shard keeps its value.
\<close>

theorem load_merges_shards:
  assumes "map (map_of fs) (glob_pkl (savedir s) fs) = map (\<lambda>d. Some (Pickle (PDict d))) ds"
  shows "load None fs s = (Inr (), s\<lparr>cache := merge_all ds (cache s)\<rparr>) \<and>
         (ds = pre @ d # post \<and> d k \<noteq> None \<and> (\<forall>d'\<in>set post. d' k = None) \<longrightarrow>
            cache (snd (load None fs s)) k = d k) \<and>
         ((\<forall>d\<in>set ds. d k' = None) \<longrightarrow> cache (snd (load None fs s)) k' = cache s k')"
  using load_paths_dicts [OF assms, of s]
  by (auto simp add: merge_all_last merge_all_absent)

theorem load_merges_shards_witness:
  "map (map_of two_shards) (glob_pkl (savedir (cached_chat True)) two_shards) =
     map (\<lambda>d. Some (Pickle (PDict d)))
       [[(''gpt-4'', ''ping'') \<mapsto> ''old'', (''gpt-4'', ''hello'') \<mapsto> ''world''],
        [(''gpt-4'', ''ping'') \<mapsto> ''new'']] \<and>
   fst (load None two_shards (cached_chat True)) = Inr () \<and>
   cache (snd (load None two_shards (cached_chat True))) (''gpt-4'', ''ping'') = Some ''new'' \<and>
   cache (snd (load None two_shards (cached_chat True))) (''gpt-4'', ''hello'') = Some ''world'' \<and>
   cache (snd (load None two_shards (cached_chat True))) (''gpt-4'', ''bye'') = Some ''see you''"
proof -
  let ?d1 = "[(''gpt-4'', ''ping'') \<mapsto> ''old'', (''gpt-4'', ''hello'') \<mapsto> ''world'']"
  let ?d2 = "[(''gpt-4'', ''ping'') \<mapsto> ''new'']"
  have h: "map (map_of two_shards) (glob_pkl (savedir (cached_chat True)) two_shards) =
             map (\<lambda>d. Some (Pickle (PDict d))) [?d1, ?d2]"
    by (simp add: cached_chat_eq glob_two_shards) (simp add: two_shards_def)
  note T1 = load_merges_shards
    [OF h, of "[?d1]" ?d2 "[]" "(''gpt-4'', ''ping'')" "(''gpt-4'', ''bye'')"]
  note T2 = load_merges_shards
    [OF h, of "[]" ?d1 "[?d2]" "(''gpt-4'', ''hello'')" "(''gpt-4'', ''bye'')"]
  have a: "fst (load None two_shards (cached_chat True)) = Inr ()"
    using T1 [THEN conjunct1] by simp
  have b: "cache (snd (load None two_shards (cached_chat True))) (''gpt-4'', ''ping'') = Some ''new''"
    using T1 [THEN conjunct2, THEN conjunct1] by simp
  have c: "cache (snd (load None two_shards (cached_chat True))) (''gpt-4'', ''hello'') =
             Some ''world''"
    using T2 [THEN conjunct2, THEN conjunct1] by simp
  have "cache (snd (load None two_shards (cached_chat True))) (''gpt-4'', ''bye'') =
          cache (cached_chat True) (''gpt-4'', ''bye'')"
    using T1 [THEN conjunct2, THEN conjunct2] by simp
  then have d: "cache (snd (load None two_shards (cached_chat True))) (''gpt-4'', ''bye'') =
                  Some ''see you''"
    by (simp add: cached_chat_eq)
  from h a b c d show ?thesis by blast
qed

text \<open>
  C8. With the price table of \<^verbatim>\<open>__init__\<close>, \<^verbatim>\<open>calculate_price\<close> raises KeyError for
  every model name other than \<open>gpt-3.5-turbo\<close> and \<open>gpt-4\<close>, and so do
  \<^verbatim>\<open>estimate_price\<close> and a call that reaches its billing step; for
  \<open>text-embedding-ada-002\<close>, whose entry has an input rate only, the missing key is
  \<open>output\<close>. For the two chat models it returns a price.
\<close>

theorem calculate_price_key_error:
  assumes "pricing_data s = pricing_table"
  shows "(model_name s \<noteq> ''gpt-3.5-turbo'' \<and> model_name s \<noteq> ''gpt-4'' \<longrightarrow>
            (\<exists>k. calculate_price s i out = Inl (KeyError k)) \<and>
            (\<exists>k. estimate_price s m = Inl (KeyError k))) \<and>
         (model_name s = ''text-embedding-ada-002'' \<longrightarrow>
            pricing_table ''text-embedding-ada-002'' = Some [''input'' \<mapsto> 1 / 10000000] \<and>
            calculate_price s i out = Inl (KeyError ''output'')) \<and>
         (cache_hit m t ti s = None \<and> model_name s \<noteq> ''gpt-3.5-turbo'' \<and> model_name s \<noteq> ''gpt-4'' \<and>
          chat_completion e (model_name s) (kept_history ti s @ [user_speech m]) t = Inr c \<longrightarrow>
            (\<exists>k. fst (call e m t ti (s, fs)) = Inl (KeyError k))) \<and>
         (model_name s = ''gpt-3.5-turbo'' \<or> model_name s = ''gpt-4'' \<longrightarrow>
            (\<exists>price. calculate_price s i out = Inr price))"
  using assms
  by (auto simp add: calculate_price_def estimate_price_def pricing_table_def call_result)

theorem calculate_price_key_error_witness:
  "pricing_data ada_chat = pricing_table \<and>
   model_name ada_chat = ''text-embedding-ada-002'' \<and>
   calculate_price ada_chat 3 1 = Inl (KeyError ''output'') \<and>
   (\<exists>k. estimate_price ada_chat ''ping'' = Inl (KeyError k)) \<and>
   cache_hit ''ping'' 0 False ada_chat = None \<and>
   (\<exists>k. fst (call example_env ''ping'' 0 False (ada_chat, [])) = Inl (KeyError k)) \<and>
   pricing_data (example_chat True) = pricing_table \<and>
   model_name (example_chat True) = ''gpt-4'' \<and>
   (\<exists>price. calculate_price (example_chat True) 3 1 = Inr price)"
proof -
  let ?c = "\<lparr>message_content = ''pong'', prompt_tokens = 3, completion_tokens = 1\<rparr>"
  have p: "pricing_data ada_chat = pricing_table" and m: "model_name ada_chat = ''text-embedding-ada-002''"
    by (simp_all add: ada_chat_eq)
  have h: "cache_hit ''ping'' 0 False ada_chat = None"
    by (simp add: cache_hit_def ada_chat_eq)
  have c: "chat_completion example_env (model_name ada_chat)
             (kept_history False ada_chat @ [user_speech ''ping'']) 0 = Inr ?c"
    by (simp add: example_env_def)
  note A = calculate_price_key_error
    [OF p, of 3 1 "''ping''" 0 False example_env ?c "[]"]
  have p': "pricing_data (example_chat True) = pricing_table"
    and m': "model_name (example_chat True) = ''gpt-4''"
    by (simp_all add: example_chat_eq)
  note B = calculate_price_key_error
    [OF p', of 3 1 "''ping''" 0 False example_env ?c "[]"]
  have a1: "calculate_price ada_chat 3 1 = Inl (KeyError ''output'')"
    using A m by simp
  have a2: "\<exists>k. estimate_price ada_chat ''ping'' = Inl (KeyError k)"
    using A m by simp
  have a3: "\<exists>k. fst (call example_env ''ping'' 0 False (ada_chat, [])) = Inl (KeyError k)"
    using A m h c by simp
  have b1: "\<exists>price. calculate_price (example_chat True) 3 1 = Inr price"
    using B m' by simp
  from p m a1 a2 h a3 p' m' b1 show ?thesis by blast
qed

text \<open>
  C9. \<^verbatim>\<open>load(path)\<close> on a file whose pickled object is not a dict raises AssertionError
  and leaves the object, its cache included, exactly as it was.
\<close>

theorem load_non_dict_asserts:
  assumes "map_of fs p = Some (Pickle obj)" and "\<not> is_dict obj"
  shows "load (Some p) fs s = (Inl AssertionError, s)"
  using assms by (cases obj) (simp_all add: load_path_def)

theorem load_non_dict_asserts_witness:
  "map_of bad_shard (''chatgpt'', ''list.pkl'') = Some (Pickle (PList [''ping'', ''pong''])) \<and>
   \<not> is_dict (PList [''ping'', ''pong'']) \<and>
   load (Some (''chatgpt'', ''list.pkl'')) bad_shard (cached_chat True) =
     (Inl AssertionError, cached_chat True)"
  using load_non_dict_asserts [of bad_shard "(''chatgpt'', ''list.pkl'')" "PList [''ping'', ''pong'']" "cached_chat True"]
  by (simp add: bad_shard_def)

text \<open>
  C10. On a cache hit \<^verbatim>\<open>__call__\<close> returns at line 191, before the restoring assignment of
  lines 219-220: a call with \<^verbatim>\<open>temporary_interactive=True\<close> on an object whose
  \<^verbatim>\<open>interactive\<close> is False returns the cached answer and leaves \<^verbatim>\<open>interactive\<close> True.
\<close>

theorem temporary_interactive_not_restored_on_cache_hit:
  "interactive (cached_chat False) = False \<and>
   fst (call example_env ''ping'' 0 True (cached_chat False, [])) = Inr (''pong'', 0) \<and>
   interactive (fst (snd (call example_env ''ping'' 0 True (cached_chat False, [])))) = True"
  by (simp add: call_result call_interactive cache_hit_def kept_history_def cached_chat_eq)

section \<open>More facts: the transcript\<close>

lemma talked_chat_eq:
  "talked_chat i =
     \<lparr>api_key = ''sk'', model_name = ''gpt-4'', embedding_model_name = ''text-embedding-ada-002'',
      pricing_data = pricing_table, fee = 3 / 20000,
      cache = [(''gpt-4'', ''ping'') \<mapsto> ''pong''], savedir = ''chatgpt'',
      chat_history = [\<lparr>role = ''user'', content = ''ping''\<rparr>,
                      \<lparr>role = ''assistant'', content = ''pong''\<rparr>],
      interactive = i, auto_saveload = False\<rparr>"
  by (simp add: talked_chat_def call_def ask_provider_def example_chat_eq example_env_def
        Let_def calculate_price_def pricing_table_def user_speech_def assistant_speech_def)

lemma reachable_example: "reachable (example_chat i, [])"
proof (rule reachable_init)
  show "init ''sk'' ''gpt-4'' ''text-embedding-ada-002'' i False [] = (Inr (), example_chat i)"
    by (simp add: example_chat_def init_def)
qed

lemma talked_step:
  "step example_env (Call ''ping'' 0 False) (example_chat i, []) = (talked_chat i, [])"
proof -
  have "snd (step example_env (Call ''ping'' 0 False) (example_chat i, [])) = []"
    by (simp add: call_def ask_provider_def example_chat_eq example_env_def
        Let_def calculate_price_def pricing_table_def)
  then show ?thesis
    by (simp add: talked_chat_def prod_eq_iff del: step.simps)
qed

lemma reachable_talked: "reachable (talked_chat i, [])"
  using reachable_step [OF reachable_example [of i], of example_env "Call ''ping'' 0 False"]
  by (simp only: talked_step)

lemma summarize_state:
  "snd (summarize_and_clear_history e w) =
     (case fst (call e summary_request 0 False w) of
        Inl err \<Rightarrow> snd (call e summary_request 0 False w)
      | Inr r \<Rightarrow>
          (fst (snd (call e summary_request 0 False w))
             \<lparr>chat_history :=
                drop (length (chat_history (fst (snd (call e summary_request 0 False w)))) - 2)
                  (chat_history (fst (snd (call e summary_request 0 False w))))\<rparr>,
           snd (snd (call e summary_request 0 False w))))"
  by (cases "call e summary_request 0 False w")
     (simp add: summarize_and_clear_history_def split: sum.split)

lemma summarize_frame:
  "cache (fst (snd (summarize_and_clear_history e w))) =
     cache (fst (snd (call e summary_request 0 False w))) \<and>
   fee (fst (snd (summarize_and_clear_history e w))) =
     fee (fst (snd (call e summary_request 0 False w))) \<and>
   pricing_data (fst (snd (summarize_and_clear_history e w))) =
     pricing_data (fst (snd (call e summary_request 0 False w)))"
  by (simp add: summarize_state split: sum.split)

lemma summarize_history:
  "chat_history (fst (snd (summarize_and_clear_history e w))) =
     (case fst (call e summary_request 0 False w) of
        Inl err \<Rightarrow> chat_history (fst (snd (call e summary_request 0 False w)))
      | Inr r \<Rightarrow>
          drop (length (chat_history (fst (snd (call e summary_request 0 False w)))) - 2)
            (chat_history (fst (snd (call e summary_request 0 False w)))))"
  by (simp add: summarize_state split: sum.split)

lemma embedding_frame:
  "chat_history (snd (embedding e q s)) = chat_history s \<and>
   cache (snd (embedding e q s)) = cache s \<and>
   pricing_data (snd (embedding e q s)) = pricing_data s"
  by (simp add: embedding_def Let_def split: sum.split option.split query.split list.split)

lemma drop_turn: "drop (length (h @ turn m r) - 2) (h @ turn m r) = turn m r"
  by (simp add: turn_def)

lemma summarize_history_cases:
  "prefix (kept_history False s) (chat_history (fst (snd (summarize_and_clear_history e (s, fs))))) \<or>
   (\<exists>r. chat_history (fst (snd (summarize_and_clear_history e (s, fs)))) = turn summary_request r)"
proof (cases "cache_hit summary_request 0 False s")
  case (Some res)
  then have "chat_history (fst (snd (summarize_and_clear_history e (s, fs)))) =
               turn summary_request res"
    using drop_turn [of "[]"] by (simp add: summarize_history call_result call_history)
  then show ?thesis by blast
next
  case None
  show ?thesis
  proof (cases "chat_completion e (model_name s)
                  (kept_history False s @ [user_speech summary_request]) 0")
    case (Inl err)
    with None show ?thesis by (simp add: summarize_history call_result call_history)
  next
    case (Inr c)
    show ?thesis
    proof (cases "calculate_price s (real_of_int (prompt_tokens c))
                    (real_of_int (completion_tokens c))")
      case (Inl err)
      with None Inr show ?thesis by (simp add: summarize_history call_result call_history)
    next
      case (Inr price)
      have r: "fst (call e summary_request 0 False (s, fs)) = Inr (message_content c, price)"
        using None \<open>chat_completion e (model_name s)
                  (kept_history False s @ [user_speech summary_request]) 0 = Inr c\<close> Inr
        by (simp add: call_result)
      have h: "chat_history (fst (snd (call e summary_request 0 False (s, fs)))) =
                 kept_history False s @ turn summary_request (message_content c)"
        using None \<open>chat_completion e (model_name s)
                  (kept_history False s @ [user_speech summary_request]) 0 = Inr c\<close>
        by (simp add: call_history)
      have "chat_history (fst (snd (summarize_and_clear_history e (s, fs)))) =
              turn summary_request (message_content c)"
        unfolding summarize_history r h by (simp only: sum.case drop_turn)
      then show ?thesis by blast
    qed
  qed
qed

lemma call_history_prefix:
  "prefix (kept_history ti s) (chat_history (fst (snd (call e m t ti (s, fs)))))"
proof (cases "cache_hit m t ti s")
  case None
  then show ?thesis by (simp add: call_history split: sum.split)
next
  case (Some res)
  then have "kept_history ti s = []"
    by (simp add: cache_hit_def split: if_splits)
  then show ?thesis by simp
qed

lemma call_history_cases:
  "chat_history (fst (snd (call e m t ti (s, fs)))) = kept_history ti s \<or>
   (\<exists>r. chat_history (fst (snd (call e m t ti (s, fs)))) = kept_history ti s @ turn m r)"
proof (cases "cache_hit m t ti s")
  case None
  then show ?thesis by (auto simp add: call_history split: sum.split)
next
  case (Some res)
  then have "kept_history ti s = []"
    by (simp add: cache_hit_def split: if_splits)
  with Some show ?thesis by (auto simp add: call_history)
qed

lemma alternates_append_turn:
  "alternates h \<Longrightarrow> even (length h) \<Longrightarrow> alternates (h @ turn m r)"
  by (induction h rule: alternates.induct)
     (simp_all add: turn_def user_speech_def assistant_speech_def)

lemma alternates_last_turn:
  "alternates h \<Longrightarrow> even (length h) \<Longrightarrow>
   alternates (drop (length h - 2) h) \<and> even (length (drop (length h - 2) h))"
proof (induction h rule: alternates.induct)
  case 1
  show ?case by simp
next
  case (2 u)
  then show ?case by simp
next
  case (3 u a rest)
  show ?case
  proof (cases rest)
    case Nil
    with 3 show ?thesis by simp
  next
    case (Cons x xs)
    with "3.prems" obtain y ys where xs: "xs = y # ys" by (cases xs) auto
    have "drop (length (u # a # rest) - 2) (u # a # rest) = drop (length rest - 2) rest"
      using Cons xs by simp
    with 3 show ?thesis by simp
  qed
qed


lemma whole_turns_kept: "whole_turns (chat_history s) \<Longrightarrow> whole_turns (kept_history ti s)"
  by (simp add: kept_history_def whole_turns_def)

lemma whole_turns_call:
  assumes "whole_turns (chat_history s)"
  shows "whole_turns (chat_history (fst (snd (call e m t ti (s, fs)))))"
proof -
  have k: "whole_turns (kept_history ti s)" using assms by (rule whole_turns_kept)
  then have "\<And>r. whole_turns (kept_history ti s @ turn m r)"
    by (simp add: whole_turns_def alternates_append_turn) (simp add: turn_def)
  with k call_history_cases [of e m t ti s fs] show ?thesis by auto
qed

lemma whole_turns_summarize:
  assumes "whole_turns (chat_history s)"
  shows "whole_turns (chat_history (fst (snd (summarize_and_clear_history e (s, fs)))))"
  using whole_turns_call [OF assms, of e summary_request 0 False fs]
  by (simp add: summarize_history whole_turns_def alternates_last_turn split: sum.split)

lemma whole_turns_step:
  assumes "whole_turns (chat_history s)"
  shows "whole_turns (chat_history (fst (step e op (s, fs))))"
proof (cases op)
  case Reset
  then show ?thesis by (simp add: reset_def whole_turns_def)
next
  case SummarizeAndClearHistory
  then show ?thesis using whole_turns_summarize [OF assms] by simp
next
  case (Call m t ti)
  then show ?thesis using whole_turns_call [OF assms] by simp
qed (simp_all add: assms load_frame embedding_frame)

lemma init_history: "chat_history (snd (init key model emodel interact autosl fs)) = []"
  by (simp add: init_def Let_def load_paths_frame)

lemma reachable_whole_turns: "reachable w \<Longrightarrow> whole_turns (chat_history (fst w))"
proof (induction rule: reachable.induct)
  case (reachable_init key model emodel interact autosl fs s)
  then show ?case
    using init_history [of key model emodel interact autosl fs] by (simp add: whole_turns_def)
next
  case (reachable_step w e op)
  then show ?case using whole_turns_step [of "fst w" e op "snd w"] by simp
qed

lemma summarize_history_exact:
  "chat_history (fst (snd (summarize_and_clear_history e (s, fs)))) = kept_history False s \<or>
   (\<exists>r. chat_history (fst (snd (summarize_and_clear_history e (s, fs)))) =
          kept_history False s @ turn summary_request r) \<or>
   (\<exists>r. chat_history (fst (snd (summarize_and_clear_history e (s, fs)))) =
          turn summary_request r)"
proof (cases "fst (call e summary_request 0 False (s, fs))")
  case (Inl err)
  then show ?thesis
    using call_history_cases [of e summary_request 0 False s fs]
    by (auto simp add: summarize_history)
next
  case (Inr res)
  then have k: "chat_history (fst (snd (call e summary_request 0 False (s, fs)))) \<noteq>
                  kept_history False s"
    by (auto simp add: call_result call_history cache_hit_def turn_def
          split: option.splits sum.splits if_splits)
  with call_history_cases [of e summary_request 0 False s fs] obtain r where
    h: "chat_history (fst (snd (call e summary_request 0 False (s, fs)))) =
          kept_history False s @ turn summary_request r" by blast
  have "chat_history (fst (snd (summarize_and_clear_history e (s, fs)))) = turn summary_request r"
    unfolding summarize_history Inr h by (simp only: sum.case drop_turn)
  then show ?thesis by blast
qed

lemma step_history_shape:
  "\<exists>kept added. chat_history (fst (step e op (s, fs))) = kept @ added \<and>
     (kept = chat_history s \<or> kept = []) \<and>
     (added = [] \<or> (\<exists>m r. added = turn m r))"
proof (cases op)
  case Reset
  then show ?thesis by (simp add: reset_def)
next
  case Save
  then show ?thesis by (intro exI [of _ "chat_history s"] exI [of _ "[]"]) simp
next
  case (Load p)
  then show ?thesis
    by (intro exI [of _ "chat_history s"] exI [of _ "[]"]) (simp add: load_frame)
next
  case ToStr
  then show ?thesis by (intro exI [of _ "chat_history s"] exI [of _ "[]"]) simp
next
  case (CalculatePrice i out)
  then show ?thesis by (intro exI [of _ "chat_history s"] exI [of _ "[]"]) simp
next
  case (EstimatePrice m)
  then show ?thesis by (intro exI [of _ "chat_history s"] exI [of _ "[]"]) simp
next
  case (Embedding q)
  then show ?thesis
    by (intro exI [of _ "chat_history s"] exI [of _ "[]"]) (simp add: embedding_frame)
next
  case SummarizeAndClearHistory
  have "kept_history False s = chat_history s \<or> kept_history False s = []"
    by (simp add: kept_history_def)
  with summarize_history_exact [of e s fs] SummarizeAndClearHistory show ?thesis
    by (metis append_Nil append_Nil2 step.simps(7))
next
  case (Call m t ti)
  have "kept_history ti s = chat_history s \<or> kept_history ti s = []"
    by (simp add: kept_history_def)
  with call_history_cases [of e m t ti s fs] Call show ?thesis
    by (metis append_Nil2 step.simps(8))
qed

section \<open>The claims about the transcript\<close>

text \<open>
  C3, as the code has it. When the call is not answered from the cache: if the provider
  raises, the call raises the same error and nothing is appended, so the transcript is
  what lines 175-181 left (the transcript of before the call when the exchange is
  interactive, the empty transcript when it is not); if the provider answers, the user
  message and the assistant's answer are appended together, as the last two entries.
\<close>

theorem call_transcript_atomic:
  assumes "cache_hit m t ti s = None"
  shows "(ti \<or> interactive s \<longrightarrow> kept_history ti s = chat_history s) \<and>
         (\<not> (ti \<or> interactive s) \<longrightarrow> kept_history ti s = []) \<and>
         (chat_completion e (model_name s) (kept_history ti s @ [user_speech m]) t = Inl err \<longrightarrow>
            fst (call e m t ti (s, fs)) = Inl err \<and>
            chat_history (fst (snd (call e m t ti (s, fs)))) = kept_history ti s) \<and>
         (chat_completion e (model_name s) (kept_history ti s @ [user_speech m]) t = Inr c \<longrightarrow>
            chat_history (fst (snd (call e m t ti (s, fs)))) =
              kept_history ti s @
                [\<lparr>role = ''user'', content = m\<rparr>,
                 \<lparr>role = ''assistant'', content = message_content c\<rparr>])"
  using assms
  by (simp add: call_result call_history kept_history_def turn_def user_speech_def
        assistant_speech_def)

theorem call_transcript_atomic_witness:
  "cache_hit ''again'' 0 False (talked_chat True) = None \<and>
   kept_history False (talked_chat True) = chat_history (talked_chat True) \<and>
   chat_completion down_env (model_name (talked_chat True))
     (kept_history False (talked_chat True) @ [user_speech ''again'']) 0 =
     Inl (ProviderError ''timeout'') \<and>
   fst (call down_env ''again'' 0 False (talked_chat True, [])) = Inl (ProviderError ''timeout'') \<and>
   chat_history (fst (snd (call down_env ''again'' 0 False (talked_chat True, [])))) =
     chat_history (talked_chat True) \<and>
   chat_history (fst (snd (call example_env ''again'' 0 False (talked_chat True, [])))) =
     chat_history (talked_chat True) @
       [\<lparr>role = ''user'', content = ''again''\<rparr>, \<lparr>role = ''assistant'', content = ''pong''\<rparr>] \<and>
   cache_hit ''again'' 0 False (talked_chat False) = None \<and>
   kept_history False (talked_chat False) = [] \<and>
   chat_history (fst (snd (call down_env ''again'' 0 False (talked_chat False, [])))) = []"
proof -
  let ?c = "\<lparr>message_content = ''pong'', prompt_tokens = 3, completion_tokens = 1\<rparr>"
  let ?err = "ProviderError ''timeout''"
  have h1: "cache_hit ''again'' 0 False (talked_chat True) = None"
    by (simp add: cache_hit_def kept_history_def talked_chat_eq)
  have h2: "cache_hit ''again'' 0 False (talked_chat False) = None"
    by (simp add: cache_hit_def kept_history_def talked_chat_eq)
  have i1: "interactive (talked_chat True)" and i2: "\<not> interactive (talked_chat False)"
    by (simp_all add: talked_chat_eq)
  have d1: "chat_completion down_env (model_name (talked_chat True))
              (kept_history False (talked_chat True) @ [user_speech ''again'']) 0 = Inl ?err"
    and d2: "chat_completion down_env (model_name (talked_chat False))
              (kept_history False (talked_chat False) @ [user_speech ''again'']) 0 = Inl ?err"
    by (simp_all add: down_env_def)
  have e1: "chat_completion example_env (model_name (talked_chat True))
              (kept_history False (talked_chat True) @ [user_speech ''again'']) 0 = Inr ?c"
    by (simp add: example_env_def)
  note A = call_transcript_atomic [OF h1, of down_env ?err "[]" ?c]
  note B = call_transcript_atomic [OF h1, of example_env ?err "[]" ?c]
  note C = call_transcript_atomic [OF h2, of down_env ?err "[]" ?c]
  have k1: "kept_history False (talked_chat True) = chat_history (talked_chat True)"
    using A i1 by simp
  have k2: "kept_history False (talked_chat False) = []"
    using C i2 by simp
  have a: "fst (call down_env ''again'' 0 False (talked_chat True, [])) = Inl ?err \<and>
           chat_history (fst (snd (call down_env ''again'' 0 False (talked_chat True, [])))) =
             chat_history (talked_chat True)"
    using A d1 k1 by simp
  have b: "chat_history (fst (snd (call example_env ''again'' 0 False (talked_chat True, [])))) =
             chat_history (talked_chat True) @
               [\<lparr>role = ''user'', content = ''again''\<rparr>,
                \<lparr>role = ''assistant'', content = ''pong''\<rparr>]"
    using B e1 k1 by simp
  have c: "chat_history (fst (snd (call down_env ''again'' 0 False (talked_chat False, [])))) = []"
    using C d2 k2 by simp
  from h1 k1 d1 a b h2 k2 c show ?thesis by blast
qed

text \<open>
  C3 as stated fails: with \<^verbatim>\<open>interactive\<close> off and one turn in the transcript, a call whose
  provider raises leaves the transcript empty, not as it was.
\<close>

theorem failed_call_clears_transcript_counterexample:
  "chat_history (talked_chat False) =
     [\<lparr>role = ''user'', content = ''ping''\<rparr>, \<lparr>role = ''assistant'', content = ''pong''\<rparr>] \<and>
   fst (call down_env ''again'' 0 False (talked_chat False, [])) = Inl (ProviderError ''timeout'') \<and>
   chat_history (fst (snd (call down_env ''again'' 0 False (talked_chat False, [])))) = [] \<and>
   chat_history (fst (snd (call down_env ''again'' 0 False (talked_chat False, [])))) \<noteq>
     chat_history (talked_chat False)"
  by (simp add: call_result call_history cache_hit_def kept_history_def talked_chat_eq
        down_env_def)

text \<open>
  C4, as the code has it. \<^verbatim>\<open>reset\<close> empties the transcript; \<^verbatim>\<open>__call__\<close> keeps it as a prefix
  when the exchange is interactive and starts from the empty transcript when it is not;
  \<^verbatim>\<open>summarize_and_clear_history\<close> either does what its call does or, when the call
  returns, keeps nothing but the last turn (the request for a summary and its answer);
  every other operation leaves the transcript as it is.
\<close>

theorem transcript_changes:
  "(op = Reset \<longrightarrow> chat_history (fst (step e op (s, fs))) = []) \<and>
   (op = Call m t ti \<longrightarrow>
      prefix (if ti \<or> interactive s then chat_history s else [])
        (chat_history (fst (step e op (s, fs))))) \<and>
   (op = SummarizeAndClearHistory \<longrightarrow>
      prefix (if interactive s then chat_history s else [])
        (chat_history (fst (step e op (s, fs)))) \<or>
      (\<exists>r. chat_history (fst (step e op (s, fs))) =
             [\<lparr>role = ''user'', content = summary_request\<rparr>,
              \<lparr>role = ''assistant'', content = r\<rparr>])) \<and>
   (op \<noteq> Reset \<and> (\<forall>m t ti. op \<noteq> Call m t ti) \<and> op \<noteq> SummarizeAndClearHistory \<longrightarrow>
      chat_history (fst (step e op (s, fs))) = chat_history s)"
proof -
  have other: "op \<noteq> Reset \<and> (\<forall>m t ti. op \<noteq> Call m t ti) \<and> op \<noteq> SummarizeAndClearHistory \<longrightarrow>
      chat_history (fst (step e op (s, fs))) = chat_history s"
    by (cases op) (auto simp add: load_frame embedding_frame)
  have rst: "op = Reset \<longrightarrow> chat_history (fst (step e op (s, fs))) = []"
    by (simp add: reset_def)
  have cl: "op = Call m t ti \<longrightarrow>
      prefix (if ti \<or> interactive s then chat_history s else [])
        (chat_history (fst (step e op (s, fs))))"
    using call_history_prefix [of ti s e m t fs] by (simp add: kept_history_def)
  have sm: "op = SummarizeAndClearHistory \<longrightarrow>
      prefix (if interactive s then chat_history s else [])
        (chat_history (fst (step e op (s, fs)))) \<or>
      (\<exists>r. chat_history (fst (step e op (s, fs))) =
             [\<lparr>role = ''user'', content = summary_request\<rparr>,
              \<lparr>role = ''assistant'', content = r\<rparr>])"
    using summarize_history_cases [of s e fs]
    by (simp add: kept_history_def turn_def user_speech_def assistant_speech_def)
  from rst cl sm other show ?thesis by blast
qed

theorem transcript_changes_witness:
  "chat_history (fst (step example_env Reset (talked_chat True, []))) = [] \<and>
   prefix (chat_history (talked_chat True))
     (chat_history (fst (step example_env (Call ''again'' 0 False) (talked_chat True, [])))) \<and>
   (prefix (chat_history (talked_chat True))
      (chat_history (fst (step example_env SummarizeAndClearHistory (talked_chat True, [])))) \<or>
    (\<exists>r. chat_history (fst (step example_env SummarizeAndClearHistory (talked_chat True, []))) =
           [\<lparr>role = ''user'', content = summary_request\<rparr>,
            \<lparr>role = ''assistant'', content = r\<rparr>])) \<and>
   chat_history (fst (step example_env Save (talked_chat True, []))) =
     chat_history (talked_chat True)"
proof -
  have i: "interactive (talked_chat True)" by (simp add: talked_chat_eq)
  have a: "chat_history (fst (step example_env Reset (talked_chat True, []))) = []"
    using transcript_changes [of Reset example_env "talked_chat True" "[]"] by simp
  have b: "prefix (chat_history (talked_chat True))
     (chat_history (fst (step example_env (Call ''again'' 0 False) (talked_chat True, []))))"
    using transcript_changes
      [of "Call ''again'' 0 False" example_env "talked_chat True" "[]" "''again''" 0 False] i
    by simp
  have c: "prefix (chat_history (talked_chat True))
      (chat_history (fst (step example_env SummarizeAndClearHistory (talked_chat True, [])))) \<or>
    (\<exists>r. chat_history (fst (step example_env SummarizeAndClearHistory (talked_chat True, []))) =
           [\<lparr>role = ''user'', content = summary_request\<rparr>,
            \<lparr>role = ''assistant'', content = r\<rparr>])"
    using transcript_changes [of SummarizeAndClearHistory example_env "talked_chat True" "[]"] i
    by simp
  have d: "chat_history (fst (step example_env Save (talked_chat True, []))) =
     chat_history (talked_chat True)"
    using transcript_changes [of Save example_env "talked_chat True" "[]"] by simp
  from a b c d show ?thesis by blast
qed

text \<open>
  C4 as stated fails: in an interactive session with one turn,
  \<^verbatim>\<open>summarize_and_clear_history\<close> drops that turn.
\<close>

theorem summarize_drops_entries_counterexample:
  "chat_history (talked_chat True) =
     [\<lparr>role = ''user'', content = ''ping''\<rparr>, \<lparr>role = ''assistant'', content = ''pong''\<rparr>] \<and>
   chat_history (fst (step example_env SummarizeAndClearHistory (talked_chat True, []))) =
     [\<lparr>role = ''user'', content = summary_request\<rparr>,
      \<lparr>role = ''assistant'', content = ''pong''\<rparr>] \<and>
   \<not> prefix (chat_history (talked_chat True))
       (chat_history (fst (step example_env SummarizeAndClearHistory (talked_chat True, []))))"
proof -
  have h: "cache_hit summary_request 0 False (talked_chat True) = None"
    by (simp add: cache_hit_def kept_history_def talked_chat_eq)
  have r: "fst (call example_env summary_request 0 False (talked_chat True, [])) =
             Inr (''pong'', 3 / 20000)"
    by (simp add: call_result h)
       (simp add: example_env_def talked_chat_eq calculate_price_def pricing_table_def)
  have c: "chat_history (fst (snd (call example_env summary_request 0 False (talked_chat True, [])))) =
             chat_history (talked_chat True) @ turn summary_request ''pong''"
    by (simp add: call_history h) (simp add: example_env_def kept_history_def talked_chat_eq)
  have "chat_history (fst (step example_env SummarizeAndClearHistory (talked_chat True, []))) =
          turn summary_request ''pong''"
    unfolding step.simps summarize_history r c by (simp only: sum.case drop_turn)
  then show ?thesis
    by (simp add: talked_chat_eq turn_def user_speech_def assistant_speech_def
          summary_request_def)
qed

text \<open>
  C7. In every session the transcript alternates user and assistant entries, a user
  entry first, before and after every operation; and an operation leaves the old
  transcript or the empty one, followed by nothing or by one turn: an entry with role
  \<open>user\<close> and an entry with role \<open>assistant\<close>.
\<close>

theorem transcript_alternates:
  assumes "reachable (s, fs)"
  shows "alternates (chat_history s) \<and>
         alternates (chat_history (fst (step e op (s, fs)))) \<and>
         (\<exists>kept added. chat_history (fst (step e op (s, fs))) = kept @ added \<and>
            (kept = chat_history s \<or> kept = []) \<and>
            (added = [] \<or>
             (\<exists>m r. added = [\<lparr>role = ''user'', content = m\<rparr>,
                             \<lparr>role = ''assistant'', content = r\<rparr>])))"
proof -
  have a: "whole_turns (chat_history s)"
    using reachable_whole_turns [OF assms] by simp
  then have b: "whole_turns (chat_history (fst (step e op (s, fs))))"
    by (rule whole_turns_step)
  from a b step_history_shape [of e op s fs] show ?thesis
    by (simp add: whole_turns_def turn_def user_speech_def assistant_speech_def)
qed

theorem transcript_alternates_witness:
  "reachable (talked_chat True, []) \<and>
   alternates (chat_history (talked_chat True)) \<and>
   alternates (chat_history (fst (step example_env (Call ''again'' 0 False) (talked_chat True, [])))) \<and>
   (\<exists>kept added.
      chat_history (fst (step example_env (Call ''again'' 0 False) (talked_chat True, []))) =
        kept @ added \<and>
      (kept = chat_history (talked_chat True) \<or> kept = []) \<and>
      (added = [] \<or>
       (\<exists>m r. added = [\<lparr>role = ''user'', content = m\<rparr>,
                       \<lparr>role = ''assistant'', content = r\<rparr>])))"
  using reachable_talked [of True]
    transcript_alternates [OF reachable_talked [of True], of example_env "Call ''again'' 0 False"]
  by blast

section \<open>More facts: the cache and the fee\<close>

lemma load_path_cases:
  "(\<exists>d. map_of fs p = Some (Pickle (PDict d)) \<and>
        load_path p fs s = (Inr (), s\<lparr>cache := cache s ++ d\<rparr>)) \<or>
   (\<exists>err. load_path p fs s = (Inl err, s))"
  by (simp add: load_path_def split: option.split file_content.split pyobj.split)

lemma load_path_cache_source:
  assumes "cache (snd (load_path p fs s)) k \<noteq> cache s k"
  shows "\<exists>d. map_of fs p = Some (Pickle (PDict d)) \<and> d k \<noteq> None \<and>
             cache (snd (load_path p fs s)) k = d k"
proof -
  from load_path_cases [of fs p s] assms obtain d where
    d: "map_of fs p = Some (Pickle (PDict d))"
    and l: "load_path p fs s = (Inr (), s\<lparr>cache := cache s ++ d\<rparr>)"
    by auto
  from assms l have "(cache s ++ d) k \<noteq> cache s k" by simp
  then have "d k \<noteq> None \<and> (cache s ++ d) k = d k"
    by (auto simp add: map_add_def split: option.splits)
  with d l show ?thesis by auto
qed

lemma load_paths_cache_source:
  "cache (snd (load_paths ps fs s)) k \<noteq> cache s k \<Longrightarrow>
   \<exists>q d. map_of fs q = Some (Pickle (PDict d)) \<and> d k \<noteq> None \<and>
          cache (snd (load_paths ps fs s)) k = d k"
proof (induction ps arbitrary: s)
  case Nil
  then show ?case by simp
next
  case (Cons p ps)
  from load_path_cases [of fs p s] show ?case
  proof
    assume "\<exists>err. load_path p fs s = (Inl err, s)"
    with Cons.prems show ?thesis by auto
  next
    assume "\<exists>d. map_of fs p = Some (Pickle (PDict d)) \<and>
                load_path p fs s = (Inr (), s\<lparr>cache := cache s ++ d\<rparr>)"
    then obtain d where d: "map_of fs p = Some (Pickle (PDict d))"
      and l: "load_path p fs s = (Inr (), s\<lparr>cache := cache s ++ d\<rparr>)" by blast
    let ?s1 = "s\<lparr>cache := cache s ++ d\<rparr>"
    have r: "load_paths (p # ps) fs s = load_paths ps fs ?s1" using l by simp
    show ?thesis
    proof (cases "cache (snd (load_paths ps fs ?s1)) k = cache ?s1 k")
      case False
      from Cons.IH [OF False] r show ?thesis by simp
    next
      case True
      with Cons.prems r have "(cache s ++ d) k \<noteq> cache s k" by simp
      then have "d k \<noteq> None \<and> (cache s ++ d) k = d k"
        by (auto simp add: map_add_def split: option.splits)
      with True r have "d k \<noteq> None \<and> cache (snd (load_paths (p # ps) fs s)) k = d k"
        by simp
      with d show ?thesis by blast
    qed
  qed
qed

lemma load_cache_source:
  assumes "cache (snd (load p fs s)) k \<noteq> cache s k"
  shows "\<exists>q d. map_of fs q = Some (Pickle (PDict d)) \<and> d k \<noteq> None \<and>
          cache (snd (load p fs s)) k = d k"
proof (cases p)
  case None
  with assms load_paths_cache_source [of "glob_pkl (savedir s) fs" fs s k]
  show ?thesis by simp
next
  case (Some q)
  have eq: "load p fs s = load_path q fs s" using Some by simp
  from assms have "cache (snd (load_path q fs s)) k \<noteq> cache s k" unfolding eq .
  from load_path_cache_source [OF this] show ?thesis unfolding eq by blast
qed

lemma call_cache_added:
  assumes "cache (fst (snd (call e m t ti (s, fs)))) \<noteq> cache s"
  shows "t = 0 \<and> (chat_history s = [] \<or> \<not> (ti \<or> interactive s)) \<and>
         (\<exists>c. chat_completion e (model_name s) [user_speech m] t = Inr c \<and>
              cache (fst (snd (call e m t ti (s, fs)))) =
                (cache s)((model_name s, m) \<mapsto> message_content c) \<and>
              chat_history (fst (snd (call e m t ti (s, fs)))) =
                [\<lparr>role = ''user'', content = m\<rparr>,
                 \<lparr>role = ''assistant'', content = message_content c\<rparr>])"
proof (cases "cache_hit m t ti s")
  case (Some res)
  with assms show ?thesis by (simp add: call_cache)
next
  case None
  show ?thesis
  proof (cases "chat_completion e (model_name s) (kept_history ti s @ [user_speech m]) t")
    case (Inl err)
    with None assms show ?thesis by (simp add: call_cache)
  next
    case (Inr c)
    with None assms have k: "kept_history ti s = [] \<and> t = 0"
      by (simp add: call_cache split: if_splits)
    then have "chat_history s = [] \<or> \<not> (ti \<or> interactive s)"
      by (auto simp add: kept_history_def split: if_splits)
    with None Inr k show ?thesis
      by (simp add: call_cache call_history turn_def user_speech_def assistant_speech_def)
  qed
qed

lemma loaded_hello:
  "cache (snd (load None two_shards (example_chat i))) (''gpt-4'', ''hello'') = Some ''world''"
proof -
  let ?d1 = "[(''gpt-4'', ''ping'') \<mapsto> ''old'', (''gpt-4'', ''hello'') \<mapsto> ''world'']"
  let ?d2 = "[(''gpt-4'', ''ping'') \<mapsto> ''new'']"
  have g: "savedir (example_chat i) = ''chatgpt''" by (simp add: example_chat_eq)
  have h: "map (map_of two_shards) (glob_pkl ''chatgpt'' two_shards) =
             map (\<lambda>d. Some (Pickle (PDict d))) [?d1, ?d2]"
    by (simp add: glob_two_shards) (simp add: two_shards_def)
  have "load None two_shards (example_chat i) =
          (Inr (), (example_chat i)\<lparr>cache := merge_all [?d1, ?d2] (cache (example_chat i))\<rparr>)"
    using load_paths_dicts [OF h, of "example_chat i"] by (simp add: g)
  then show ?thesis by (simp add: merge_all_def)
qed

lemma pricing_table_rates:
  "pricing_table model = Some pricing \<Longrightarrow> pricing key = Some rate \<Longrightarrow> 0 \<le> rate"
  by (auto simp add: pricing_table_def split: if_splits)

lemma calculate_price_nonneg:
  assumes "pricing_data s = pricing_table" and "0 \<le> i" and "0 \<le> out"
    and "calculate_price s i out = Inr p"
  shows "0 \<le> p"
proof -
  from assms(4) obtain pricing rate_in rate_out where
    a: "pricing_data s (model_name s) = Some pricing"
    and b: "pricing ''input'' = Some rate_in" and c: "pricing ''output'' = Some rate_out"
    and p: "p = rate_in * i + rate_out * out"
    by (auto simp add: calculate_price_def split: option.splits)
  from a assms(1) have t: "pricing_table (model_name s) = Some pricing" by simp
  have "0 \<le> rate_in" and "0 \<le> rate_out"
    using pricing_table_rates [OF t b] pricing_table_rates [OF t c] by simp_all
  with assms(2,3) p show ?thesis by simp
qed

lemma call_price_nonneg:
  assumes "pricing_data s = pricing_table" and "usage_nonneg e"
    and "fst (call e m t ti (s, fs)) = Inr (res, price)"
  shows "0 \<le> price"
proof (cases "cache_hit m t ti s")
  case (Some r)
  with assms(3) show ?thesis by (simp add: call_result)
next
  case None
  with assms(3) obtain c where
    c: "chat_completion e (model_name s) (kept_history ti s @ [user_speech m]) t = Inr c"
    and p: "calculate_price s (real_of_int (prompt_tokens c))
              (real_of_int (completion_tokens c)) = Inr price"
    by (auto simp add: call_result split: sum.splits)
  from assms(2) c have "0 \<le> prompt_tokens c \<and> 0 \<le> completion_tokens c"
    unfolding usage_nonneg_def by blast
  then show ?thesis using calculate_price_nonneg [OF assms(1) _ _ p] by simp
qed

lemma call_fee_mono:
  assumes "pricing_data s = pricing_table" and "usage_nonneg e"
  shows "fee s \<le> fee (fst (snd (call e m t ti (s, fs))))"
proof (cases "fst (call e m t ti (s, fs))")
  case (Inl err)
  then show ?thesis by (simp add: call_fee)
next
  case (Inr r)
  obtain res price where r: "r = (res, price)" by (cases r)
  with Inr call_price_nonneg [OF assms, of m t ti fs res price] show ?thesis
    by (simp add: call_fee)
qed

lemma embedding_fee:
  "fee (snd (embedding e q s)) = fee s \<or>
   (\<exists>res pricing rate.
      embedding_create e
        (case q of Iter items \<Rightarrow> map unbreak items | Str x \<Rightarrow> [unbreak x])
        (embedding_model_name s) = Inr res \<and>
      pricing_data s (embedding_model_name s) = Some pricing \<and> pricing ''input'' = Some rate \<and>
      fee (snd (embedding e q s)) = fee s + real_of_int (total_tokens res) * rate)"
  by (auto simp add: embedding_def Let_def split: sum.split option.split query.split list.split)

lemma embedding_fee_exact:
  "fst (embedding e q s) = Inr (v, price) \<Longrightarrow> fee (snd (embedding e q s)) = fee s + price"
  by (auto simp add: embedding_def Let_def
        split: sum.splits option.splits query.splits list.splits)

lemma embedding_fee_mono:
  assumes "pricing_data s = pricing_table" and "usage_nonneg e"
  shows "fee s \<le> fee (snd (embedding e q s))"
proof -
  from embedding_fee [of e q s] show ?thesis
  proof
    assume "fee (snd (embedding e q s)) = fee s"
    then show ?thesis by simp
  next
    assume "\<exists>res pricing rate.
      embedding_create e
        (case q of Iter items \<Rightarrow> map unbreak items | Str x \<Rightarrow> [unbreak x])
        (embedding_model_name s) = Inr res \<and>
      pricing_data s (embedding_model_name s) = Some pricing \<and> pricing ''input'' = Some rate \<and>
      fee (snd (embedding e q s)) = fee s + real_of_int (total_tokens res) * rate"
    then obtain res pricing rate where
      r: "embedding_create e
            (case q of Iter items \<Rightarrow> map unbreak items | Str x \<Rightarrow> [unbreak x])
            (embedding_model_name s) = Inr res"
      and a: "pricing_data s (embedding_model_name s) = Some pricing"
      and b: "pricing ''input'' = Some rate"
      and f: "fee (snd (embedding e q s)) = fee s + real_of_int (total_tokens res) * rate"
      by blast
    from assms(2) r have "0 \<le> total_tokens res" unfolding usage_nonneg_def by blast
    moreover from a assms(1) b have "0 \<le> rate" using pricing_table_rates by simp
    ultimately show ?thesis using f by simp
  qed
qed

lemma usage_nonneg_example: "usage_nonneg example_env"
  by (auto simp add: usage_nonneg_def example_env_def)

section \<open>The claims about the cache and the fee\<close>

text \<open>
  C2, as the code has it. \<^verbatim>\<open>__call__\<close> changes the cache only when the temperature is 0
  and the exchange is single-turn (the transcript was empty, or was emptied because the
  exchange is not interactive): the provider answered the lone user message, the new
  entry maps (model name, message) to the answer, and the transcript is then that one
  turn. \<^verbatim>\<open>summarize_and_clear_history\<close> changes the cache as its call does. \<^verbatim>\<open>load\<close> changes
  a key only to the value a pickled dict on disk gives it. No other operation changes
  the cache.
\<close>

theorem cache_entries_added:
  "(cache (fst (step e (Call m t ti) (s, fs))) \<noteq> cache s \<longrightarrow>
      t = 0 \<and> (chat_history s = [] \<or> \<not> (ti \<or> interactive s)) \<and>
      (\<exists>c. chat_completion e (model_name s) [user_speech m] t = Inr c \<and>
           cache (fst (step e (Call m t ti) (s, fs))) =
             (cache s)((model_name s, m) \<mapsto> message_content c) \<and>
           chat_history (fst (step e (Call m t ti) (s, fs))) =
             [\<lparr>role = ''user'', content = m\<rparr>,
              \<lparr>role = ''assistant'', content = message_content c\<rparr>])) \<and>
   cache (fst (step e SummarizeAndClearHistory (s, fs))) =
     cache (fst (step e (Call summary_request 0 False) (s, fs))) \<and>
   (cache (fst (step e (Load p) (s, fs))) k \<noteq> cache s k \<longrightarrow>
      (\<exists>q d. map_of fs q = Some (Pickle (PDict d)) \<and> d k \<noteq> None \<and>
             cache (fst (step e (Load p) (s, fs))) k = d k)) \<and>
   ((\<forall>m t ti. op \<noteq> Call m t ti) \<and> op \<noteq> SummarizeAndClearHistory \<and> (\<forall>p. op \<noteq> Load p) \<longrightarrow>
      cache (fst (step e op (s, fs))) = cache s)"
proof -
  have other: "(\<forall>m t ti. op \<noteq> Call m t ti) \<and> op \<noteq> SummarizeAndClearHistory \<and>
      (\<forall>p. op \<noteq> Load p) \<longrightarrow> cache (fst (step e op (s, fs))) = cache s"
    by (cases op) (auto simp add: reset_def embedding_frame)
  have cl: "cache (fst (step e (Call m t ti) (s, fs))) \<noteq> cache s \<longrightarrow>
      t = 0 \<and> (chat_history s = [] \<or> \<not> (ti \<or> interactive s)) \<and>
      (\<exists>c. chat_completion e (model_name s) [user_speech m] t = Inr c \<and>
           cache (fst (step e (Call m t ti) (s, fs))) =
             (cache s)((model_name s, m) \<mapsto> message_content c) \<and>
           chat_history (fst (step e (Call m t ti) (s, fs))) =
             [\<lparr>role = ''user'', content = m\<rparr>,
              \<lparr>role = ''assistant'', content = message_content c\<rparr>])"
    using call_cache_added [of e m t ti s fs] by simp
  have sm: "cache (fst (step e SummarizeAndClearHistory (s, fs))) =
     cache (fst (step e (Call summary_request 0 False) (s, fs)))"
    by (simp add: summarize_frame)
  have ld: "cache (fst (step e (Load p) (s, fs))) k \<noteq> cache s k \<longrightarrow>
      (\<exists>q d. map_of fs q = Some (Pickle (PDict d)) \<and> d k \<noteq> None \<and>
             cache (fst (step e (Load p) (s, fs))) k = d k)"
    using load_cache_source [of p fs s k] by simp
  from cl sm ld other show ?thesis by blast
qed

theorem cache_entries_added_witness:
  "cache (fst (step example_env (Call ''ping'' 0 False) (example_chat True, []))) \<noteq>
     cache (example_chat True) \<and>
   chat_history (example_chat True) = [] \<and>
   cache (fst (step example_env (Call ''ping'' 0 False) (example_chat True, []))) =
     (cache (example_chat True))((''gpt-4'', ''ping'') \<mapsto> ''pong'') \<and>
   chat_history (fst (step example_env (Call ''ping'' 0 False) (example_chat True, []))) =
     [\<lparr>role = ''user'', content = ''ping''\<rparr>, \<lparr>role = ''assistant'', content = ''pong''\<rparr>] \<and>
   cache (fst (step example_env SummarizeAndClearHistory (example_chat True, []))) =
     cache (fst (step example_env (Call summary_request 0 False) (example_chat True, []))) \<and>
   cache (fst (step example_env (Load None) (example_chat True, two_shards))) (''gpt-4'', ''hello'') \<noteq>
     cache (example_chat True) (''gpt-4'', ''hello'') \<and>
   (\<exists>q d. map_of two_shards q = Some (Pickle (PDict d)) \<and> d (''gpt-4'', ''hello'') \<noteq> None \<and>
      cache (fst (step example_env (Load None) (example_chat True, two_shards))) (''gpt-4'', ''hello'') =
        d (''gpt-4'', ''hello'')) \<and>
   cache (fst (step example_env Reset (example_chat True, []))) = cache (example_chat True)"
proof -
  note T = cache_entries_added
    [of example_env "''ping''" 0 False "example_chat True" "[]" None "(''gpt-4'', ''hello'')" Reset]
  note L = cache_entries_added
    [of example_env "''ping''" 0 False "example_chat True" two_shards None
      "(''gpt-4'', ''hello'')" Reset]
  have st: "fst (step example_env (Call ''ping'' 0 False) (example_chat True, [])) =
              talked_chat True"
    by (simp add: talked_chat_def)
  have a: "cache (fst (step example_env (Call ''ping'' 0 False) (example_chat True, []))) \<noteq>
             cache (example_chat True)"
    unfolding st by (simp add: talked_chat_eq example_chat_eq)
  have h: "chat_history (example_chat True) = []" by (simp add: example_chat_eq)
  from T a obtain c where
    c: "chat_completion example_env (model_name (example_chat True)) [user_speech ''ping''] 0 =
          Inr c"
    and c1: "cache (fst (step example_env (Call ''ping'' 0 False) (example_chat True, []))) =
          (cache (example_chat True))((model_name (example_chat True), ''ping'') \<mapsto> message_content c)"
    and c2: "chat_history (fst (step example_env (Call ''ping'' 0 False) (example_chat True, []))) =
          [\<lparr>role = ''user'', content = ''ping''\<rparr>,
           \<lparr>role = ''assistant'', content = message_content c\<rparr>]"
    by blast
  from c have mc: "message_content c = ''pong''" by (auto simp add: example_env_def)
  have b: "cache (fst (step example_env (Call ''ping'' 0 False) (example_chat True, []))) =
     (cache (example_chat True))((''gpt-4'', ''ping'') \<mapsto> ''pong'')"
    using c1 mc by (simp add: example_chat_eq)
  have b2: "chat_history (fst (step example_env (Call ''ping'' 0 False) (example_chat True, []))) =
     [\<lparr>role = ''user'', content = ''ping''\<rparr>, \<lparr>role = ''assistant'', content = ''pong''\<rparr>]"
    using c2 mc by simp
  have s: "cache (fst (step example_env SummarizeAndClearHistory (example_chat True, []))) =
     cache (fst (step example_env (Call summary_request 0 False) (example_chat True, [])))"
    using T by blast
  have l1: "cache (fst (step example_env (Load None) (example_chat True, two_shards)))
              (''gpt-4'', ''hello'') \<noteq> cache (example_chat True) (''gpt-4'', ''hello'')"
    using loaded_hello [of True] by (simp add: example_chat_eq)
  with L have l2: "\<exists>q d. map_of two_shards q = Some (Pickle (PDict d)) \<and>
      d (''gpt-4'', ''hello'') \<noteq> None \<and>
      cache (fst (step example_env (Load None) (example_chat True, two_shards))) (''gpt-4'', ''hello'') =
        d (''gpt-4'', ''hello'')"
    by blast
  have r: "cache (fst (step example_env Reset (example_chat True, []))) = cache (example_chat True)"
    using T by blast
  from a h b b2 s l1 l2 r show ?thesis by blast
qed

text \<open>
  C2 as stated fails twice: \<^verbatim>\<open>load\<close> adds the entries of the shards, and a call on a
  transcript that was not empty before the call adds an entry when \<^verbatim>\<open>interactive\<close> is
  off.
\<close>

theorem cache_entry_added_by_load_counterexample:
  "cache (example_chat True) (''gpt-4'', ''hello'') = None \<and>
   cache (fst (step example_env (Load None) (example_chat True, two_shards)))
     (''gpt-4'', ''hello'') = Some ''world'' \<and>
   chat_history (talked_chat False) \<noteq> [] \<and>
   cache (talked_chat False) (''gpt-4'', ''again'') = None \<and>
   cache (fst (step example_env (Call ''again'' 0 False) (talked_chat False, [])))
     (''gpt-4'', ''again'') = Some ''pong''"
proof -
  have a: "cache (example_chat True) (''gpt-4'', ''hello'') = None"
    by (simp add: example_chat_eq)
  have b: "cache (fst (step example_env (Load None) (example_chat True, two_shards)))
     (''gpt-4'', ''hello'') = Some ''world''"
    using loaded_hello [of True] by simp
  have c: "chat_history (talked_chat False) \<noteq> [] \<and>
           cache (talked_chat False) (''gpt-4'', ''again'') = None"
    by (simp add: talked_chat_eq)
  have h: "cache_hit ''again'' 0 False (talked_chat False) = None"
    by (simp add: cache_hit_def kept_history_def talked_chat_eq)
  have d: "cache (fst (step example_env (Call ''again'' 0 False) (talked_chat False, [])))
     (''gpt-4'', ''again'') = Some ''pong''"
    by (simp add: call_cache h) (simp add: example_env_def kept_history_def talked_chat_eq)
  from a b c d show ?thesis by blast
qed

text \<open>
  C5. With the price table of \<^verbatim>\<open>__init__\<close> and a provider whose token counts are not
  negative, no operation lowers the accumulated fee; a call that returns a price has
  raised the fee by exactly that price, which on the provider path is the price
  \<^verbatim>\<open>calculate_price\<close> gives for the reported usage; and so has \<^verbatim>\<open>embedding\<close>.
\<close>

theorem fee_monotone:
  assumes "pricing_data s = pricing_table" and "usage_nonneg e"
  shows "fee s \<le> fee (fst (step e op (s, fs))) \<and>
         (fst (call e m t ti (s, fs)) = Inr (res, price) \<longrightarrow>
            fee (fst (snd (call e m t ti (s, fs)))) = fee s + price) \<and>
         (cache_hit m t ti s = None \<and>
          chat_completion e (model_name s) (kept_history ti s @ [user_speech m]) t = Inr c \<and>
          calculate_price s (real_of_int (prompt_tokens c))
            (real_of_int (completion_tokens c)) = Inr p \<longrightarrow>
            fee (fst (snd (call e m t ti (s, fs)))) = fee s + p) \<and>
         (fst (embedding e q s) = Inr (v, price') \<longrightarrow>
            fee (snd (embedding e q s)) = fee s + price')"
proof -
  have mono: "fee s \<le> fee (fst (step e op (s, fs)))"
  proof (cases op)
    case SummarizeAndClearHistory
    then show ?thesis
      using call_fee_mono [OF assms, of summary_request 0 False fs]
      by (simp add: summarize_frame)
  next
    case (Call m' t' ti')
    then show ?thesis using call_fee_mono [OF assms, of m' t' ti' fs] by simp
  next
    case (Embedding q')
    then show ?thesis using embedding_fee_mono [OF assms, of q'] by simp
  qed (simp_all add: reset_def load_frame)
  have a: "fst (call e m t ti (s, fs)) = Inr (res, price) \<longrightarrow>
            fee (fst (snd (call e m t ti (s, fs)))) = fee s + price"
    by (simp add: call_fee)
  have b: "cache_hit m t ti s = None \<and>
          chat_completion e (model_name s) (kept_history ti s @ [user_speech m]) t = Inr c \<and>
          calculate_price s (real_of_int (prompt_tokens c))
            (real_of_int (completion_tokens c)) = Inr p \<longrightarrow>
            fee (fst (snd (call e m t ti (s, fs)))) = fee s + p"
    by (simp add: call_fee call_result)
  have c: "fst (embedding e q s) = Inr (v, price') \<longrightarrow>
            fee (snd (embedding e q s)) = fee s + price'"
    using embedding_fee_exact [of e q s v price'] by blast
  from mono a b c show ?thesis by blast
qed

theorem fee_monotone_witness:
  "pricing_data (example_chat True) = pricing_table \<and>
   usage_nonneg example_env \<and>
   fee (example_chat True) \<le>
     fee (fst (step example_env (Call ''ping'' 0 False) (example_chat True, []))) \<and>
   fst (call example_env ''ping'' 0 False (example_chat True, [])) = Inr (''pong'', 3 / 20000) \<and>
   fee (fst (snd (call example_env ''ping'' 0 False (example_chat True, [])))) =
     fee (example_chat True) + 3 / 20000 \<and>
   fst (embedding example_env (Str ''hi'') (example_chat True)) = Inr (Vec [0], 1 / 5000000) \<and>
   fee (snd (embedding example_env (Str ''hi'') (example_chat True))) =
     fee (example_chat True) + 1 / 5000000"
proof -
  let ?c = "\<lparr>message_content = ''pong'', prompt_tokens = 3, completion_tokens = 1\<rparr>"
  have p: "pricing_data (example_chat True) = pricing_table"
    by (simp add: example_chat_eq)
  note T = fee_monotone [OF p usage_nonneg_example,
      of "Call ''ping'' 0 False" "[]" "''ping''" 0 False "''pong''" "3 / 20000" ?c "3 / 20000"
        "Str ''hi''" "Vec [0]" "1 / 5000000"]
  have h: "cache_hit ''ping'' 0 False (example_chat True) = None"
    by (simp add: cache_hit_def example_chat_eq)
  have cp: "calculate_price (example_chat True) 3 1 = Inr (3 / 20000)"
    by (simp add: calculate_price_def example_chat_eq pricing_table_def)
  have r: "fst (call example_env ''ping'' 0 False (example_chat True, [])) =
             Inr (''pong'', 3 / 20000)"
    by (simp add: call_result h) (simp add: example_env_def cp)
  have em: "fst (embedding example_env (Str ''hi'') (example_chat True)) =
              Inr (Vec [0], 1 / 5000000)"
    by (simp add: embedding_def example_env_def example_chat_eq pricing_table_def Let_def)
  have a: "fee (example_chat True) \<le>
     fee (fst (step example_env (Call ''ping'' 0 False) (example_chat True, [])))"
    using T by blast
  have b: "fee (fst (snd (call example_env ''ping'' 0 False (example_chat True, [])))) =
     fee (example_chat True) + 3 / 20000"
    using T r by blast
  have c: "fee (snd (embedding example_env (Str ''hi'') (example_chat True))) =
     fee (example_chat True) + 1 / 5000000"
    using T em by blast
  from p usage_nonneg_example a r b em c show ?thesis by blast
qed

section \<open>Further properties\<close>

lemma step_pricing: "pricing_data (fst (step e op (s, fs))) = pricing_data s"
  by (cases op) (simp_all add: reset_def load_frame summarize_frame call_frame embedding_frame)

lemma init_pricing: "pricing_data (snd (init key model emodel interact autosl fs)) = pricing_table"
  by (simp add: init_def Let_def load_paths_frame)

lemma reachable_pricing_fst: "reachable w \<Longrightarrow> pricing_data (fst w) = pricing_table"
proof (induction rule: reachable.induct)
  case (reachable_init key model emodel interact autosl fs s)
  then show ?case using init_pricing [of key model emodel interact autosl fs] by simp
next
  case (reachable_step w e op)
  then show ?case using step_pricing [of e op "fst w" "snd w"] by simp
qed

text \<open>
  No call, whether it returns or raises, changes the model names, the key, the
  price table or the save directory of the object.
\<close>

theorem call_leaves_configuration:
  "model_name (fst (snd (call e m t ti (s, fs)))) = model_name s \<and>
   embedding_model_name (fst (snd (call e m t ti (s, fs)))) = embedding_model_name s \<and>
   api_key (fst (snd (call e m t ti (s, fs)))) = api_key s \<and>
   pricing_data (fst (snd (call e m t ti (s, fs)))) = pricing_data s \<and>
   savedir (fst (snd (call e m t ti (s, fs)))) = savedir s"
  by (simp add: call_frame)

text \<open>
  A call that is not answered from the cache and returns leaves \<^verbatim>\<open>interactive\<close> as
  it was before the call, also with \<^verbatim>\<open>temporary_interactive\<close> (lines 219-220).
\<close>

theorem provider_path_restores_interactive:
  assumes "cache_hit m t ti s = None" and "fst (call e m t ti (s, fs)) = Inr r"
  shows "interactive (fst (snd (call e m t ti (s, fs)))) = interactive s"
  using assms by (simp add: call_interactive)

theorem provider_path_restores_interactive_witness:
  "cache_hit ''ping'' 0 True (example_chat False) = None \<and>
   fst (call example_env ''ping'' 0 True (example_chat False, [])) = Inr (''pong'', 3 / 20000) \<and>
   interactive (fst (snd (call example_env ''ping'' 0 True (example_chat False, [])))) =
     interactive (example_chat False) \<and>
   interactive (example_chat False) = False"
proof -
  have h: "cache_hit ''ping'' 0 True (example_chat False) = None"
    by (simp add: cache_hit_def example_chat_eq)
  have cp: "calculate_price (example_chat False) 3 1 = Inr (3 / 20000)"
    by (simp add: calculate_price_def example_chat_eq pricing_table_def)
  have r: "fst (call example_env ''ping'' 0 True (example_chat False, [])) =
             Inr (''pong'', 3 / 20000)"
    by (simp add: call_result h) (simp add: example_env_def cp)
  have i: "interactive (example_chat False) = False" by (simp add: example_chat_eq)
  from h r provider_path_restores_interactive [OF h r] i show ?thesis by blast
qed

text \<open>
  In every session the price table of the object is the one \<^verbatim>\<open>__init__\<close> assigned.
\<close>

theorem reachable_pricing:
  assumes "reachable (s, fs)"
  shows "pricing_data s = pricing_table"
  using reachable_pricing_fst [OF assms] by simp

theorem reachable_pricing_witness:
  "reachable (talked_chat True, []) \<and> pricing_data (talked_chat True) = pricing_table"
  using reachable_talked [of True] reachable_pricing [OF reachable_talked [of True]] by blast

end
